theory Spec2Isabelle
  imports Main "HOL-Library.FSet"
begin

section \<open>Python values\<close>

text \<open>
  The identity service is Python. A decoded token payload is a \<^verbatim>\<open>dict\<close> read from JSON,
  so its values are JSON values; Python's \<^verbatim>\<open>None\<close> is \<open>JNull\<close>. A dict is an association
  list in insertion order. Floats do not occur in any payload this service signs and are
  left out. Clock readings (\<^verbatim>\<open>datetime.utcnow()\<close>) are whole seconds since the epoch.
\<close>

datatype json =
    JNull
  | JBool bool
  | JInt int
  | JStr string
  | JList "json list"
  | JObj "(string \<times> json) list"

type_synonym claims = "(string \<times> json) list"

text \<open>Truth value of a Python object, as \<^verbatim>\<open>if not x\<close> tests it.\<close>

fun truthy :: "json \<Rightarrow> bool" where
  "truthy JNull = False"
| "truthy (JBool b) = b"
| "truthy (JInt i) = (i \<noteq> 0)"
| "truthy (JStr s) = (s \<noteq> [])"
| "truthy (JList xs) = (xs \<noteq> [])"
| "truthy (JObj kvs) = (kvs \<noteq> [])"

text \<open>\<^verbatim>\<open>d.get(k)\<close> and \<^verbatim>\<open>d.get(k, default)\<close>: a missing key gives \<^verbatim>\<open>None\<close>, or the default.\<close>

definition get_default :: "claims \<Rightarrow> string \<Rightarrow> json \<Rightarrow> json" where
  "get_default d k dflt = (case map_of d k of None \<Rightarrow> dflt | Some v \<Rightarrow> v)"

definition get :: "claims \<Rightarrow> string \<Rightarrow> json" where
  "get d k = get_default d k JNull"

text \<open>
  Exceptions are values. A Python exception has a class and a message; \<^verbatim>\<open>HTTPException\<close>
  carries a status code and a detail string. \<^verbatim>\<open>ExpiredSignatureError\<close> and
  \<^verbatim>\<open>JWTClaimsError\<close> are subclasses of \<^verbatim>\<open>JWTError\<close> in python-jose, so
  \<^verbatim>\<open>except JWTError\<close> catches all three.
\<close>

datatype exn_class =
    JWTError
  | ExpiredSignatureError
  | JWTClaimsError
  | ValueError
  | TypeError
  | AttributeError
  | ValidationError
  | RecursionError
  | OtherException

datatype exn =
    Exn exn_class string
  | HTTPException nat string

fun is_JWTError :: "exn \<Rightarrow> bool" where
  "is_JWTError (Exn c m) = (c = JWTError \<or> c = ExpiredSignatureError \<or> c = JWTClaimsError)"
| "is_JWTError (HTTPException s d) = False"

fun is_ValueError :: "exn \<Rightarrow> bool" where
  "is_ValueError (Exn c m) = (c = ValueError)"
| "is_ValueError (HTTPException s d) = False"

fun str_exn :: "exn \<Rightarrow> string" where
  "str_exn (Exn c m) = m"
| "str_exn (HTTPException s d) = d"


section \<open>TokenBlacklist (infrastructure/security/token\_blacklist.py)\<close>

text \<open>
  The deny-list is a Python \<^verbatim>\<open>set\<close> of token strings, so a finite set. The code only
  stores and compares tokens; the model is polymorphic in their type, \<open>string\<close> being the
  instance the service runs at. Every method body runs under one lock; the model is the
  sequential behaviour of one call, which takes the state and returns the new one.
  \<open>cleanup_interval\<close> is \<^verbatim>\<open>timedelta(hours=1)\<close> in seconds.
\<close>

record 'tok TokenBlacklist =
  blacklist :: "'tok fset"
  cleanup_interval :: int
  last_cleanup :: int

definition TokenBlacklist_init :: "int \<Rightarrow> 'tok TokenBlacklist" where
  "TokenBlacklist_init now =
     \<lparr>blacklist = {||}, cleanup_interval = 3600, last_cleanup = now\<rparr>"

text \<open>The periodic clean-up only records the time: no entry is evicted.\<close>

definition auto_cleanup :: "'tok TokenBlacklist \<Rightarrow> int \<Rightarrow> 'tok TokenBlacklist" where
  "auto_cleanup s now =
     (if now - last_cleanup s > cleanup_interval s then s\<lparr>last_cleanup := now\<rparr> else s)"

definition add_token :: "'tok TokenBlacklist \<Rightarrow> int \<Rightarrow> 'tok \<Rightarrow> 'tok TokenBlacklist" where
  "add_token s now token = auto_cleanup (s\<lparr>blacklist := finsert token (blacklist s)\<rparr>) now"

definition is_blacklisted :: "'tok TokenBlacklist \<Rightarrow> 'tok \<Rightarrow> bool" where
  "is_blacklisted s token = (token |\<in>| blacklist s)"





section \<open>Role resolution (login\_user.py 63-84, routes.py 267-288)\<close>

text \<open>
  The fields of the \<^verbatim>\<open>Role\<close> entity that the token logic reads, and its identity. The block
  that turns a superuser flag and the roles the repository returned into the primary role
  and the role codes stands twice in the source, word for word: in
  \<^verbatim>\<open>LoginUserUseCase.execute\<close> and in the \<^verbatim>\<open>refresh_token\<close> route. Both models call the one
  function below.
\<close>

record Role =
  role_id :: string
  name :: string
  code :: string
  is_active :: bool

definition resolve_roles :: "bool \<Rightarrow> Role list \<Rightarrow> string \<times> string list" where
  "resolve_roles is_su user_roles =
     (let primary_role =
            (if is_su then ''RRHH''
             else if user_roles \<noteq> [] then
               (case filter Role.is_active user_roles of
                  [] \<Rightarrow> ''USER''
                | r # rest \<Rightarrow> code r)
             else ''USER'');
          role_codes0 = map code (filter Role.is_active user_roles);
          role_codes1 =
            (if is_su \<and> ''RRHH'' \<notin> set role_codes0 then role_codes0 @ [''RRHH'']
             else role_codes0);
          role_codes2 =
            (if role_codes1 = [] then role_codes1 @ [''USER''] else role_codes1)
      in (primary_role, role_codes2))"


section \<open>python-jose, as the handler calls it\<close>

text \<open>
  \<^verbatim>\<open>jose.jwt\<close> is a library, not code of this repository, so the model takes it as a
  parameter: \<^verbatim>\<open>jwt.encode(payload, key, algorithm)\<close> and
  \<^verbatim>\<open>jwt.decode(token, key, algorithms)\<close>, each returning a value or the exception it raises.
  \<open>jwt_decode\<close> has one more argument, the clock reading at the time of the call, since the
  library compares the \<^verbatim>\<open>exp\<close> claim with the current time. The library turns the
  \<^verbatim>\<open>datetime\<close> values of \<^verbatim>\<open>exp\<close> and \<^verbatim>\<open>iat\<close> into integer timestamps when it encodes; the
  model writes the integers into the payload directly.
\<close>

record 'tok jose =
  jwt_encode :: "claims \<Rightarrow> string \<Rightarrow> string \<Rightarrow> exn + 'tok"
  jwt_decode :: "'tok \<Rightarrow> string \<Rightarrow> string list \<Rightarrow> int \<Rightarrow> exn + claims"


text \<open>
  Second, that signing and verifying are inverse under one key and algorithm, for the payloads
  this service signs: distinct keys, a string \<^verbatim>\<open>sub\<close>, integer \<^verbatim>\<open>exp\<close> and \<^verbatim>\<open>iat\<close>, and
  otherwise only the private claims of \<open>private_claims\<close>. Such a payload encodes to a token,
  and the token decodes to the same payload as long as the clock has not passed \<^verbatim>\<open>exp\<close>
  (the library rejects when \<^verbatim>\<open>exp < now\<close>), and raises \<^verbatim>\<open>ExpiredSignatureError\<close> after.
\<close>

definition private_claims :: "string list" where
  "private_claims = [''username'', ''email'', ''is_superuser'', ''role'', ''roles'', ''type'']"

definition is_JStr :: "json option \<Rightarrow> bool" where
  "is_JStr v = (case v of Some (JStr s) \<Rightarrow> True | _ \<Rightarrow> False)"

definition is_JInt :: "json option \<Rightarrow> bool" where
  "is_JInt v = (case v of Some (JInt i) \<Rightarrow> True | _ \<Rightarrow> False)"

definition signable :: "claims \<Rightarrow> bool" where
  "signable p =
     (distinct (map fst p)
      \<and> is_JStr (map_of p ''sub'') \<and> is_JInt (map_of p ''exp'') \<and> is_JInt (map_of p ''iat'')
      \<and> list_all (\<lambda>k. k \<in> set ([''sub'', ''exp'', ''iat''] @ private_claims)) (map fst p))"

definition expired :: "claims \<Rightarrow> int \<Rightarrow> bool" where
  "expired p now = (case map_of p ''exp'' of Some (JInt e) \<Rightarrow> e < now | _ \<Rightarrow> False)"

definition jose_roundtrip :: "'tok jose \<Rightarrow> string \<Rightarrow> string \<Rightarrow> bool" where
  "jose_roundtrip L key alg =
     (\<forall>p. signable p \<longrightarrow>
        (\<exists>tok. jwt_encode L p key alg = Inr tok
           \<and> (\<forall>now. if expired p now
                  then (\<exists>m. jwt_decode L tok key [alg] now = Inl (Exn ExpiredSignatureError m))
                  else jwt_decode L tok key [alg] now = Inr p)))"

text \<open>
  An idealised instance of the library, used to instantiate the theorems: a token is the
  payload together with the key and algorithm it was signed with, or a string that is no
  token at all.
\<close>

datatype sym_token = Signed claims string string | Garbage string

definition sym_encode :: "claims \<Rightarrow> string \<Rightarrow> string \<Rightarrow> exn + sym_token" where
  "sym_encode p key alg = Inr (Signed p key alg)"

fun sym_decode :: "sym_token \<Rightarrow> string \<Rightarrow> string list \<Rightarrow> int \<Rightarrow> exn + claims" where
  "sym_decode (Garbage s) key algs now = Inl (Exn JWTError ''Not enough segments'')"
| "sym_decode (Signed p k a) key algs now =
     (if a \<notin> set algs then Inl (Exn JWTError ''The specified alg value is not allowed'')
      else if k \<noteq> key then Inl (Exn JWTError ''Signature verification failed.'')
      else if expired p now then Inl (Exn ExpiredSignatureError ''Signature has expired.'')
      else Inr p)"

definition sym_jose :: "sym_token jose" where
  "sym_jose = \<lparr>jwt_encode = sym_encode, jwt_decode = sym_decode\<rparr>"

text \<open>
  A library of this interface can raise exceptions outside the \<^verbatim>\<open>JWTError\<close> family.
  Python's \<^verbatim>\<open>json.loads\<close>, which a JWT library runs on the header and on the payload of a
  token, raises \<^verbatim>\<open>RecursionError\<close> on a document nested deeper than the interpreter's
  recursion limit (1000 by default), and \<^verbatim>\<open>RecursionError\<close> is neither a \<^verbatim>\<open>ValueError\<close> nor a
  \<^verbatim>\<open>JWTError\<close>. The second instance is the idealised library with such a parser: for a
  string that is no token it counts the opening brackets the string starts with.
\<close>

definition recursion_limit :: nat where
  "recursion_limit = 1000"

definition nesting :: "string \<Rightarrow> nat" where
  "nesting s = length (takeWhile (\<lambda>c. c = CHR ''['') s)"

fun nested_decode :: "sym_token \<Rightarrow> string \<Rightarrow> string list \<Rightarrow> int \<Rightarrow> exn + claims" where
  "nested_decode (Garbage s) key algs now =
     (if nesting s > recursion_limit
      then Inl (Exn RecursionError
                  ''maximum recursion depth exceeded while decoding a JSON array from a unicode string'')
      else sym_decode (Garbage s) key algs now)"
| "nested_decode (Signed p k a) key algs now = sym_decode (Signed p k a) key algs now"

definition nested_jose :: "sym_token jose" where
  "nested_jose = \<lparr>jwt_encode = sym_encode, jwt_decode = nested_decode\<rparr>"


section \<open>JWTHandler (infrastructure/security/jwt\_handler.py)\<close>

record JWTHandler =
  secret_key :: string
  algorithm :: string
  access_token_expire_minutes :: int
  refresh_token_expire_days :: int

text \<open>\<^verbatim>\<open>roles or [role]\<close>: the default \<^verbatim>\<open>None\<close> and the empty list both give \<^verbatim>\<open>[role]\<close>.\<close>

definition roles_or :: "string list option \<Rightarrow> string list \<Rightarrow> string list" where
  "roles_or roles dflt =
     (case roles of None \<Rightarrow> dflt | Some rs \<Rightarrow> if rs = [] then dflt else rs)"

text \<open>
  \<open>now\<close> is the reading of \<^verbatim>\<open>datetime.utcnow()\<close>. The source reads the clock once for
  \<^verbatim>\<open>exp\<close> and once more for \<^verbatim>\<open>iat\<close>; the model uses one reading for both.
\<close>

definition access_payload ::
  "JWTHandler \<Rightarrow> int \<Rightarrow> string \<Rightarrow> string \<Rightarrow> string \<Rightarrow> bool \<Rightarrow> string \<Rightarrow> string list option
     \<Rightarrow> claims" where
  "access_payload h now uid uname mail is_su role roles =
     (let expire = now + 60 * access_token_expire_minutes h
      in [(''sub'', JStr uid),
          (''username'', JStr uname),
          (''email'', JStr mail),
          (''is_superuser'', JBool is_su),
          (''role'', JStr role),
          (''roles'', JList (map JStr (roles_or roles [role]))),
          (''type'', JStr ''access''),
          (''exp'', JInt expire),
          (''iat'', JInt now)])"

definition create_access_token ::
  "'tok jose \<Rightarrow> JWTHandler \<Rightarrow> int \<Rightarrow> string \<Rightarrow> string \<Rightarrow> string \<Rightarrow> bool \<Rightarrow> string
     \<Rightarrow> string list option \<Rightarrow> exn + 'tok" where
  "create_access_token L h now uid uname mail is_su role roles =
     jwt_encode L (access_payload h now uid uname mail is_su role roles)
       (secret_key h) (algorithm h)"

definition refresh_payload :: "JWTHandler \<Rightarrow> int \<Rightarrow> string \<Rightarrow> claims" where
  "refresh_payload h now uid =
     (let expire = now + 86400 * refresh_token_expire_days h
      in [(''sub'', JStr uid),
          (''type'', JStr ''refresh''),
          (''exp'', JInt expire),
          (''iat'', JInt now)])"

definition create_refresh_token :: "'tok jose \<Rightarrow> JWTHandler \<Rightarrow> int \<Rightarrow> string \<Rightarrow> exn + 'tok" where
  "create_refresh_token L h now uid =
     jwt_encode L (refresh_payload h now uid) (secret_key h) (algorithm h)"

text \<open>
  \<^verbatim>\<open>decode_token\<close> catches \<^verbatim>\<open>JWTError\<close> (and so its subclasses) and returns \<^verbatim>\<open>None\<close>; any other
  exception of the library would pass through. The result is \<open>Inl\<close> for an exception that
  leaves the method, \<open>Inr None\<close> for \<^verbatim>\<open>None\<close>, \<open>Inr (Some payload)\<close> for a payload.
\<close>

definition decode_token :: "'tok jose \<Rightarrow> JWTHandler \<Rightarrow> int \<Rightarrow> 'tok \<Rightarrow> exn + claims option" where
  "decode_token L h now token =
     (case jwt_decode L token (secret_key h) [algorithm h] now of
        Inr payload \<Rightarrow> Inr (Some payload)
      | Inl e \<Rightarrow> if is_JWTError e then Inr None else Inl e)"

text \<open>
  \<^verbatim>\<open>not payload\<close> on an \<^verbatim>\<open>Optional[Dict]\<close> is true of \<^verbatim>\<open>None\<close> and of the empty dict: the two
  cases of each such test below.
\<close>

definition verify_token ::
  "'tok jose \<Rightarrow> JWTHandler \<Rightarrow> int \<Rightarrow> 'tok \<Rightarrow> string \<Rightarrow> exn + claims option" where
  "verify_token L h now token token_type =
     (case decode_token L h now token of
        Inl e \<Rightarrow> Inl e
      | Inr payload \<Rightarrow>
          (case payload of
             None \<Rightarrow> Inr None
           | Some d \<Rightarrow>
               if d = [] then Inr None
               else if get d ''type'' \<noteq> JStr token_type then Inr None
               else Inr (Some d)))"


section \<open>Request guards (infrastructure/api/dependencies.py)\<close>

definition get_current_user ::
  "'tok jose \<Rightarrow> JWTHandler \<Rightarrow> 'tok TokenBlacklist \<Rightarrow> int \<Rightarrow> 'tok \<Rightarrow> exn + claims" where
  "get_current_user L h bl now token =
     (if is_blacklisted bl token
      then Inl (HTTPException 401 ''Token has been revoked'')
      else
        (case verify_token L h now token ''access'' of
           Inl e \<Rightarrow> Inl e
         | Inr payload \<Rightarrow>
             (case payload of
                None \<Rightarrow> Inl (HTTPException 401 ''Invalid or expired token'')
              | Some d \<Rightarrow>
                  if d = [] then Inl (HTTPException 401 ''Invalid or expired token'')
                  else Inr d)))"

definition get_current_superuser :: "claims \<Rightarrow> exn + claims" where
  "get_current_superuser current_user =
     (if \<not> truthy (get_default current_user ''is_superuser'' (JBool False))
      then Inl (HTTPException 403 ''Not enough permissions'')
      else Inr current_user)"

definition get_current_rrhh_user :: "claims \<Rightarrow> exn + claims" where
  "get_current_rrhh_user current_user =
     (if get current_user ''role'' \<noteq> JStr ''RRHH''
      then Inl (HTTPException 403 ''Only users with RRHH role can perform this action'')
      else Inr current_user)"


section \<open>Users, repositories and the password context\<close>

text \<open>
  The \<^verbatim>\<open>User\<close> entity, with the fields the session logic reads or writes. \<open>id_user\<close> is
  \<^verbatim>\<open>str(user.id)\<close>, the form in which the id enters a token. The descriptive fields that are
  only copied into a response (full name, phone, birth date, address, creation time) are
  left out, here and in \<open>UserResponse\<close>.
\<close>

record User =
  id_user :: string
  national_id_number :: string
  username :: string
  email :: string
  hashed_password :: string
  is_active :: bool
  is_superuser :: bool
  updated_at :: int
  last_login :: "int option"


text \<open>
  The use cases depend on the abstract interfaces of \<^verbatim>\<open>domain/repositories\<close>; the model takes
  an implementation as a parameter, each method returning its value or the exception it
  raises. \<open>get_by_id\<close> receives whatever \<^verbatim>\<open>payload.get("sub")\<close> returned. The password context
  is passlib's \<^verbatim>\<open>CryptContext.verify(password, hash)\<close>.
\<close>

record user_repository =
  get_by_id :: "json \<Rightarrow> exn + User option"
  get_by_username :: "string \<Rightarrow> exn + User option"
  get_by_email :: "string \<Rightarrow> exn + User option"
  update :: "User \<Rightarrow> exn + User"

record role_repository =
  get_user_roles :: "string \<Rightarrow> exn + Role list"


record UserResponse =
  id_resp :: string
  national_id_number_resp :: string
  email_resp :: string
  role_resp :: string
  roles_resp :: "string list option"
  username_resp :: string
  is_active_resp :: bool
  is_superuser_resp :: bool
  updated_at_resp :: int
  last_login_resp :: "int option"

record 'tok TokenResponse =
  access_token :: 'tok
  refresh_token_resp :: 'tok
  token_type :: string
  expires_in :: int
  user :: UserResponse


section \<open>LoginUserUseCase.execute (application/use\_cases/login\_user.py)\<close>


text \<open>
  The \<^verbatim>\<open>/auth/login\<close> route turns a \<^verbatim>\<open>ValueError\<close> of the use case into status 401 with the
  error's message, and any other exception into status 500.
\<close>

definition login :: "(exn + 'a) \<Rightarrow> exn + 'a" where
  "login result =
     (case result of
        Inr r \<Rightarrow> Inr r
      | Inl e \<Rightarrow>
          if is_ValueError e then Inl (HTTPException 401 (str_exn e))
          else Inl (HTTPException 500 (''Internal server error: '' @ str_exn e)))"


section \<open>The refresh route (infrastructure/api/routes.py 227-334)\<close>

text \<open>
  The body of the route's \<^verbatim>\<open>try\<close> block, then the handlers around it: an
  \<^verbatim>\<open>HTTPException\<close> is raised again as it is, any other exception becomes status 500.
\<close>

definition refresh_token_body ::
  "'tok jose \<Rightarrow> JWTHandler \<Rightarrow> user_repository \<Rightarrow> role_repository \<Rightarrow> int \<Rightarrow> 'tok
     \<Rightarrow> exn + 'tok TokenResponse" where
  "refresh_token_body L h U R now token =
     (case verify_token L h now token ''refresh'' of
        Inl e \<Rightarrow> Inl e
      | Inr payload \<Rightarrow>
     (case payload of
        None \<Rightarrow> Inl (HTTPException 401 ''Invalid or expired refresh token'')
      | Some d \<Rightarrow>
     (if d = [] then Inl (HTTPException 401 ''Invalid or expired refresh token'')
      else
     (case get_by_id U (get d ''sub'') of
        Inl e \<Rightarrow> Inl e
      | Inr found \<Rightarrow>
     (case found of
        None \<Rightarrow> Inl (HTTPException 401 ''User not found'')
      | Some user1 \<Rightarrow>
          if \<not> User.is_active user1 then Inl (HTTPException 401 ''User account is inactive'')
          else
             (case get_user_roles R (id_user user1) of
                Inl e \<Rightarrow> Inl e
              | Inr user_roles \<Rightarrow>
             (let primary_role = fst (resolve_roles (is_superuser user1) user_roles);
                  role_codes = snd (resolve_roles (is_superuser user1) user_roles)
              in
             (case create_access_token L h now (id_user user1) (username user1) (email user1)
                     (is_superuser user1) primary_role (Some role_codes) of
                Inl e \<Rightarrow> Inl e
              | Inr access \<Rightarrow>
             (case create_refresh_token L h now (id_user user1) of
                Inl e \<Rightarrow> Inl e
              | Inr refresh \<Rightarrow>
                  Inr \<lparr>access_token = access,
                       refresh_token_resp = refresh,
                       token_type = ''bearer'',
                       expires_in = access_token_expire_minutes h * 60,
                       user =
                         \<lparr>id_resp = id_user user1,
                          national_id_number_resp = national_id_number user1,
                          email_resp = email user1,
                          role_resp = primary_role,
                          roles_resp = Some role_codes,
                          username_resp = username user1,
                          is_active_resp = User.is_active user1,
                          is_superuser_resp = is_superuser user1,
                          updated_at_resp = updated_at user1,
                          last_login_resp = last_login user1\<rparr>\<rparr>)))))))))"

definition refresh_token ::
  "'tok jose \<Rightarrow> JWTHandler \<Rightarrow> user_repository \<Rightarrow> role_repository \<Rightarrow> int \<Rightarrow> 'tok
     \<Rightarrow> exn + 'tok TokenResponse" where
  "refresh_token L h U R now token =
     (case refresh_token_body L h U R now token of
        Inr r \<Rightarrow> Inr r
      | Inl (HTTPException st d) \<Rightarrow> Inl (HTTPException st d)
      | Inl (Exn c m) \<Rightarrow> Inl (HTTPException 500 (''Internal server error: '' @ m)))"


section \<open>The \<^verbatim>\<open>UUID\<close> constructor of the standard library\<close>

text \<open>
  \<^verbatim>\<open>ValidateTokenUseCase.execute\<close> calls \<^verbatim>\<open>UUID(user_id)\<close>. The constructor, from CPython's
  \<^verbatim>\<open>uuid.py\<close>, for the one argument \<^verbatim>\<open>hex\<close>:
  \<^verbatim>\<open>
    hex = hex.replace('urn:', '').replace('uuid:', '')
    hex = hex.strip('{}').replace('-', '')
    if len(hex) != 32: raise ValueError('badly formed hexadecimal UUID string')
    int = int_(hex, 16)
    if not 0 <= int < 1<<128: raise ValueError('int is out of range (need a 128-bit value)')
  \<close>
  Strings are ASCII here. The value of a UUID is its 128-bit integer. The messages of the
  exceptions that Python itself raises are shortened.
\<close>

fun replace_del :: "string \<Rightarrow> string \<Rightarrow> string" where
  "replace_del old [] = []"
| "replace_del old (c # cs) =
     (if old \<noteq> [] \<and> take (length old) (c # cs) = old
      then replace_del old (drop (length old) (c # cs))
      else c # replace_del old cs)"

definition strip_chars :: "string \<Rightarrow> string \<Rightarrow> string" where
  "strip_chars chars s =
     rev (dropWhile (\<lambda>c. c \<in> set chars) (rev (dropWhile (\<lambda>c. c \<in> set chars) s)))"

text \<open>
  \<^verbatim>\<open>int(s, 16)\<close> on an ASCII string: white space around (tab, line feed, vertical tab, form
  feed, carriage return, space), an optional sign, an optional \<^verbatim>\<open>0x\<close> prefix, then
  hexadecimal digits, where single underscores may stand between digits and after the prefix.
\<close>

definition is_space :: "char \<Rightarrow> bool" where
  "is_space c = (of_char c \<in> set [9, 10, 11, 12, 13, 32 :: nat])"

definition hex_value :: "char \<Rightarrow> int option" where
  "hex_value c =
     (let n = of_char c :: nat in
      if 48 \<le> n \<and> n \<le> 57 then Some (int n - 48)
      else if 97 \<le> n \<and> n \<le> 102 then Some (int n - 87)
      else if 65 \<le> n \<and> n \<le> 70 then Some (int n - 55)
      else None)"

fun hex_digits :: "string \<Rightarrow> bool \<Rightarrow> int \<Rightarrow> int option" where
  "hex_digits [] prev_underscore acc = (if prev_underscore then None else Some acc)"
| "hex_digits (c # cs) prev_underscore acc =
     (if c = CHR ''_'' then (if prev_underscore then None else hex_digits cs True acc)
      else (case hex_value c of
              None \<Rightarrow> None
            | Some d \<Rightarrow> hex_digits cs False (16 * acc + d)))"

definition strip_sign :: "string \<Rightarrow> bool \<times> string" where
  "strip_sign s =
     (case s of
        [] \<Rightarrow> (False, s)
      | c # cs \<Rightarrow>
          if c = CHR ''+'' then (False, cs)
          else if c = CHR ''-'' then (True, cs)
          else (False, s))"

definition strip_0x :: "string \<Rightarrow> string" where
  "strip_0x s =
     (case s of
        c0 # cx # cs \<Rightarrow>
          if c0 = CHR ''0'' \<and> (cx = CHR ''x'' \<or> cx = CHR ''X'')
          then (case cs of
                  [] \<Rightarrow> cs
                | u # cs' \<Rightarrow> if u = CHR ''_'' then cs' else cs)
          else s
      | _ \<Rightarrow> s)"

definition int_base16 :: "string \<Rightarrow> exn + int" where
  "int_base16 s =
     (let err = Inl (Exn ValueError ''invalid literal for int() with base 16'');
          signed = strip_sign (dropWhile is_space s);
          body = strip_0x (snd signed);
          digs = takeWhile (\<lambda>c. hex_value c \<noteq> None \<or> c = CHR ''_'') body;
          rest = dropWhile (\<lambda>c. hex_value c \<noteq> None \<or> c = CHR ''_'') body
      in (case digs of
            [] \<Rightarrow> err
          | c # cs \<Rightarrow>
              if c = CHR ''_'' then err
              else (case hex_digits digs False 0 of
                      None \<Rightarrow> err
                    | Some v \<Rightarrow>
                        if list_all is_space rest
                        then Inr (if fst signed then - v else v)
                        else err)))"

definition UUID :: "json \<Rightarrow> exn + int" where
  "UUID v =
     (case v of
        JStr hex0 \<Rightarrow>
          (let hex1 = replace_del ''uuid:'' (replace_del ''urn:'' hex0);
               hex2 = filter (\<lambda>c. c \<noteq> CHR ''-'') (strip_chars ''{}'' hex1)
           in if length hex2 \<noteq> 32
              then Inl (Exn ValueError ''badly formed hexadecimal UUID string'')
              else (case int_base16 hex2 of
                      Inl e \<Rightarrow> Inl e
                    | Inr i \<Rightarrow>
                        if \<not> (0 \<le> i \<and> i < 2 ^ 128)
                        then Inl (Exn ValueError ''int is out of range (need a 128-bit value)'')
                        else Inr i))
      | JNull \<Rightarrow>
          Inl (Exn TypeError
                 ''one of the hex, bytes, bytes_le, fields, or int arguments must be given'')
      | _ \<Rightarrow> Inl (Exn AttributeError ''object has no attribute replace''))"


section \<open>ValidateTokenUseCase.execute (application/use\_cases/validate\_token.py)\<close>

text \<open>
  \<^verbatim>\<open>TokenValidationResponse\<close> is a pydantic model: \<^verbatim>\<open>username\<close> and \<^verbatim>\<open>email\<close> are declared
  \<^verbatim>\<open>Optional[str]\<close>, \<^verbatim>\<open>is_superuser\<close> is declared \<^verbatim>\<open>bool\<close>. The constructor accepts \<^verbatim>\<open>None\<close> and a
  string for the former and a Boolean for the latter. What it does with a value of another
  type (coerce it, or raise a validation error) depends on the installed pydantic, which is a
  parameter of the model.
\<close>

record pydantic =
  coerce_str :: "json \<Rightarrow> exn + string"
  coerce_bool :: "json \<Rightarrow> exn + bool"

fun optional_str_field :: "pydantic \<Rightarrow> json \<Rightarrow> exn + string option" where
  "optional_str_field P JNull = Inr None"
| "optional_str_field P (JStr s) = Inr (Some s)"
| "optional_str_field P v = (case coerce_str P v of Inl e \<Rightarrow> Inl e | Inr s \<Rightarrow> Inr (Some s))"

fun bool_field :: "pydantic \<Rightarrow> json \<Rightarrow> exn + bool" where
  "bool_field P (JBool b) = Inr b"
| "bool_field P v = coerce_bool P v"

record TokenValidationResponse =
  valid :: bool
  user_id :: "int option"
  username_val :: "string option"
  email_val :: "string option"
  is_superuser_val :: bool
  message :: "string option"

text \<open>The two ways in which the use case reports an invalid token.\<close>

definition invalid_response :: "string \<Rightarrow> TokenValidationResponse" where
  "invalid_response msg =
     \<lparr>valid = False, user_id = None, username_val = None, email_val = None,
      is_superuser_val = False, message = Some msg\<rparr>"

definition validation_failed :: "exn \<Rightarrow> TokenValidationResponse" where
  "validation_failed e = invalid_response (''Token validation failed: '' @ str_exn e)"

definition ValidateTokenUseCase_execute ::
  "pydantic \<Rightarrow> 'tok jose \<Rightarrow> JWTHandler \<Rightarrow> int \<Rightarrow> 'tok \<Rightarrow> TokenValidationResponse" where
  "ValidateTokenUseCase_execute P L h now token =
     (case decode_token L h now token of
        Inl e \<Rightarrow> validation_failed e
      | Inr payload \<Rightarrow>
     (case payload of
        None \<Rightarrow> invalid_response ''Invalid or expired token''
      | Some d \<Rightarrow>
     (if d = [] then invalid_response ''Invalid or expired token''
      else
     (let uid = get d ''sub'';
          uname = get d ''username'';
          mail = get d ''email'';
          is_su = get_default d ''is_superuser'' (JBool False)
      in
      if \<not> truthy uid then invalid_response ''Invalid token payload''
      else
     (case UUID uid of
        Inl e \<Rightarrow> validation_failed e
      | Inr u \<Rightarrow>
     (case optional_str_field P uname of
        Inl e \<Rightarrow> validation_failed e
      | Inr uname' \<Rightarrow>
     (case optional_str_field P mail of
        Inl e \<Rightarrow> validation_failed e
      | Inr mail' \<Rightarrow>
     (case bool_field P is_su of
        Inl e \<Rightarrow> validation_failed e
      | Inr is_su' \<Rightarrow>
          \<lparr>valid = True, user_id = Some u, username_val = uname', email_val = mail',
           is_superuser_val = is_su', message = Some ''Token is valid''\<rparr>))))))))"


section \<open>The process-wide deny-list and the routes that receive it\<close>

text \<open>
  \<^verbatim>\<open>get_token_blacklist\<close> creates the module-level instance on first use and returns the same
  instance afterwards; it is the only mutable state the process shares between requests.
  FastAPI resolves a route's \<^verbatim>\<open>Depends\<close> parameters before it calls the route, so a route is
  a function of the process state and the request. \<^verbatim>\<open>get_current_user\<close> depends on
  \<^verbatim>\<open>get_blacklist\<close>; the parameters of the refresh route are the JWT handler and the two
  repositories, and none of them is built from the deny-list.
\<close>

record 'tok process =
  token_blacklist_instance :: "'tok TokenBlacklist option"

definition get_token_blacklist ::
  "'tok process \<Rightarrow> int \<Rightarrow> 'tok TokenBlacklist \<times> 'tok process" where
  "get_token_blacklist w now =
     (case token_blacklist_instance w of
        None \<Rightarrow>
          (TokenBlacklist_init now,
           w\<lparr>token_blacklist_instance := Some (TokenBlacklist_init now)\<rparr>)
      | Some b \<Rightarrow> (b, w))"

definition route_current_user ::
  "'tok jose \<Rightarrow> JWTHandler \<Rightarrow> 'tok process \<Rightarrow> int \<Rightarrow> 'tok \<Rightarrow> (exn + claims) \<times> 'tok process" where
  "route_current_user L h w now token =
     (get_current_user L h (fst (get_token_blacklist w now)) now token,
      snd (get_token_blacklist w now))"

definition route_refresh ::
  "'tok jose \<Rightarrow> JWTHandler \<Rightarrow> user_repository \<Rightarrow> role_repository \<Rightarrow> 'tok process \<Rightarrow> int \<Rightarrow> 'tok
     \<Rightarrow> (exn + 'tok TokenResponse) \<times> 'tok process" where
  "route_refresh L h U R w now token = (refresh_token L h U R now token, w)"

text \<open>
  \<^verbatim>\<open>LogoutUserUseCase.execute\<close> adds the presented token to the deny-list. Its two argument
  checks need the token to be a string, so logout is modelled at that type. The route
  passes \<^verbatim>\<open>current_user.get("sub")\<close> as the user id; \<^verbatim>\<open>ValueError\<close> becomes status 400.
\<close>

definition LogoutUserUseCase_execute ::
  "string TokenBlacklist \<Rightarrow> int \<Rightarrow> string \<Rightarrow> json \<Rightarrow> (exn + claims) \<times> string TokenBlacklist" where
  "LogoutUserUseCase_execute bl now access uid =
     (if access = [] then (Inl (Exn ValueError ''Access token must be a non-empty string''), bl)
      else if \<not> truthy uid \<or> \<not> (case uid of JStr x \<Rightarrow> True | _ \<Rightarrow> False)
      then (Inl (Exn ValueError ''User ID must be a non-empty string''), bl)
      else
        (Inr [(''message'', JStr ''Successfully logged out''),
              (''user_id'', uid),
              (''detail'', JStr ''Token has been invalidated. Please discard your tokens.'')],
         add_token bl now access))"

definition logout ::
  "string jose \<Rightarrow> JWTHandler \<Rightarrow> string process \<Rightarrow> int \<Rightarrow> string \<Rightarrow> (exn + claims) \<times> string process" where
  "logout L h w now token =
     (let bl = fst (get_token_blacklist w now);
          w1 = snd (get_token_blacklist w now)
      in (case get_current_user L h bl now token of
            Inl e \<Rightarrow> (Inl e, w1)
          | Inr current_user \<Rightarrow>
              (case LogoutUserUseCase_execute bl now token (get current_user ''sub'') of
                 (Inl e, bl') \<Rightarrow>
                   (if is_ValueError e then Inl (HTTPException 400 (str_exn e))
                    else Inl (HTTPException 500 (''Internal server error: '' @ str_exn e)),
                    w1\<lparr>token_blacklist_instance := Some bl'\<rparr>)
               | (Inr r, bl') \<Rightarrow> (Inr r, w1\<lparr>token_blacklist_instance := Some bl'\<rparr>))))"


section \<open>A configuration to run the definitions on\<close>

text \<open>
  The handler as \<^verbatim>\<open>config/settings.py\<close> configures it by default, a pydantic that coerces
  nothing, and a small user base: an active physician, a deactivated account and an
  administrator, with the password check reduced to comparing with the stored string.
\<close>

definition default_handler :: JWTHandler where
  "default_handler =
     \<lparr>secret_key = ''your-secret-key-change-this-in-production'',
      algorithm = ''HS256'',
      access_token_expire_minutes = 30,
      refresh_token_expire_days = 7\<rparr>"

definition strict_pydantic :: pydantic where
  "strict_pydantic =
     \<lparr>coerce_str = (\<lambda>v. Inl (Exn ValidationError ''Input should be a valid string'')),
      coerce_bool = (\<lambda>v. Inl (Exn ValidationError ''Input should be a valid boolean''))\<rparr>"

definition jdoe :: User where
  "jdoe =
     \<lparr>id_user = ''123e4567-e89b-12d3-a456-426614174000'',
      national_id_number = ''1234567890'',
      username = ''jdoe'',
      email = ''jdoe@example.com'',
      hashed_password = ''Correct1!'',
      is_active = True,
      is_superuser = False,
      updated_at = 0,
      last_login = None\<rparr>"

definition former :: User where
  "former =
     \<lparr>id_user = ''223e4567-e89b-12d3-a456-426614174000'',
      national_id_number = ''2234567890'',
      username = ''former'',
      email = ''former@example.com'',
      hashed_password = ''Secret2!'',
      is_active = False,
      is_superuser = False,
      updated_at = 0,
      last_login = None\<rparr>"

definition example_users :: "User list" where
  "example_users = [jdoe, former]"

definition example_user_repository :: user_repository where
  "example_user_repository =
     \<lparr>get_by_id =
        (\<lambda>v. Inr (find (\<lambda>u. JStr (id_user u) = v) example_users)),
      get_by_username = (\<lambda>n. Inr (find (\<lambda>u. username u = n) example_users)),
      get_by_email = (\<lambda>m. Inr (find (\<lambda>u. email u = m) example_users)),
      update = (\<lambda>u. Inr u)\<rparr>"

definition medico :: Role where
  "medico = \<lparr>role_id = ''r1'', name = ''Medico'', code = ''MEDICO'', is_active = True\<rparr>"

definition rrhh :: Role where
  "rrhh = \<lparr>role_id = ''r2'', name = ''Recursos Humanos'', code = ''RRHH'', is_active = True\<rparr>"

definition example_role_repository :: role_repository where
  "example_role_repository =
     \<lparr>get_user_roles = (\<lambda>i. Inr (if i = id_user jdoe then [medico, rrhh] else []))\<rparr>"


text \<open>
  The token pair that a login of \<open>jdoe\<close> at time 1000 returns under the idealised library,
  and a process in which both tokens have been put on the deny-list at time 1001.
\<close>

definition jdoe_access :: sym_token where
  "jdoe_access =
     Signed (access_payload default_handler 1000 (id_user jdoe) (username jdoe) (email jdoe)
               False ''MEDICO'' (Some [''MEDICO'', ''RRHH'']))
       (secret_key default_handler) (algorithm default_handler)"

definition jdoe_refresh :: sym_token where
  "jdoe_refresh =
     Signed (refresh_payload default_handler 1000 (id_user jdoe))
       (secret_key default_handler) (algorithm default_handler)"

definition logged_out :: "sym_token process" where
  "logged_out =
     \<lparr>token_blacklist_instance =
        Some (add_token (add_token (TokenBlacklist_init 0) 1001 jdoe_access) 1001 jdoe_refresh)\<rparr>"


section \<open>Properties of the deny-list\<close>


lemma is_blacklisted_add_token:
  "is_blacklisted (add_token s now t) t' = (t' = t \<or> is_blacklisted s t')"
  by (auto simp: add_token_def auto_cleanup_def is_blacklisted_def)







section \<open>Role resolution\<close>

text \<open>
  C6. For every superuser flag and every list of assigned roles, the role codes that role
  resolution returns are never empty and the primary role is one of them; a superuser
  without roles gets primary role RRHH and role codes [RRHH].
\<close>

theorem resolve_roles_invariant:
  "snd (resolve_roles is_su user_roles) \<noteq> []
   \<and> fst (resolve_roles is_su user_roles) \<in> set (snd (resolve_roles is_su user_roles))
   \<and> resolve_roles True [] = (''RRHH'', [''RRHH''])"
proof -
  define act where "act = filter Role.is_active user_roles"
  have r: "resolve_roles is_su user_roles =
     (if is_su then ''RRHH''
      else if user_roles \<noteq> [] then (case act of [] \<Rightarrow> ''USER'' | r # rest \<Rightarrow> code r)
      else ''USER'',
      if (if is_su \<and> ''RRHH'' \<notin> set (map code act) then map code act @ [''RRHH'']
          else map code act) = []
      then (if is_su \<and> ''RRHH'' \<notin> set (map code act) then map code act @ [''RRHH'']
            else map code act) @ [''USER'']
      else (if is_su \<and> ''RRHH'' \<notin> set (map code act) then map code act @ [''RRHH'']
            else map code act))"
    unfolding resolve_roles_def Let_def act_def by (rule refl)
  have nonempty: "act \<noteq> [] \<Longrightarrow> user_roles \<noteq> []"
    by (auto simp: act_def)
  have main: "snd (resolve_roles is_su user_roles) \<noteq> []
      \<and> fst (resolve_roles is_su user_roles) \<in> set (snd (resolve_roles is_su user_roles))"
  proof (cases act)
    case Nil
    then show ?thesis unfolding r by simp
  next
    case (Cons a rest)
    with nonempty have "user_roles \<noteq> []" by simp
    with Cons show ?thesis unfolding r by auto
  qed
  have ex: "resolve_roles True [] = (''RRHH'', [''RRHH''])"
    by (simp add: resolve_roles_def Let_def)
  from main ex show ?thesis by simp
qed

theorem resolve_roles_invariant_witness:
  "snd (resolve_roles False [medico, rrhh]) \<noteq> []
   \<and> fst (resolve_roles False [medico, rrhh]) \<in> set (snd (resolve_roles False [medico, rrhh]))
   \<and> resolve_roles True [] = (''RRHH'', [''RRHH''])"
  by (rule resolve_roles_invariant [of False "[medico, rrhh]"])

text \<open>
  C7. The primary role is RRHH for a superuser; otherwise it is the code of the first
  active role in the order the caller supplied, when there is an active role; otherwise it
  is USER. A superuser without roles resolves to (RRHH, [RRHH]), a user with the one active
  role MEDICO to (MEDICO, [MEDICO]), a user without roles to (USER, [USER]).
\<close>

theorem resolve_roles_algorithm:
  "fst (resolve_roles is_su user_roles) =
     (if is_su then ''RRHH''
      else (case filter Role.is_active user_roles of
              [] \<Rightarrow> ''USER''
            | r # rest \<Rightarrow> code r))
   \<and> resolve_roles True [] = (''RRHH'', [''RRHH''])
   \<and> resolve_roles False [\<lparr>role_id = i, name = n, code = ''MEDICO'', is_active = True\<rparr>]
       = (''MEDICO'', [''MEDICO''])
   \<and> resolve_roles False [] = (''USER'', [''USER''])"
  by (simp add: resolve_roles_def Let_def)

theorem resolve_roles_algorithm_witness:
  "fst (resolve_roles False
          [\<lparr>role_id = ''r3'', name = ''Soporte'', code = ''SOPORTE'', is_active = False\<rparr>,
           medico, rrhh]) = ''MEDICO''"
  using resolve_roles_algorithm
          [of False
             "[\<lparr>role_id = ''r3'', name = ''Soporte'', code = ''SOPORTE'', is_active = False\<rparr>,
               medico, rrhh]" "''r1''" "''Medico''"]
  by (simp add: medico_def rrhh_def)


section \<open>The request guards\<close>

lemma verify_token_Some_nonempty:
  "verify_token L h now token ty = Inr (Some d) \<Longrightarrow> d \<noteq> []"
  by (auto simp: verify_token_def split: sum.splits option.splits if_splits)

text \<open>
  C1. For every presented token, \<open>get_current_user\<close> looks into the deny-list first: a
  token in it is rejected as revoked, whatever the codec would say of it. Otherwise the
  result is that of \<open>verify_token\<close> for kind access: none is rejected as invalid or expired,
  and claims are returned as they are.
\<close>

theorem get_current_user_checks_store_first:
  "get_current_user L h bl now token =
     (if is_blacklisted bl token then Inl (HTTPException 401 ''Token has been revoked'')
      else (case verify_token L h now token ''access'' of
              Inl e \<Rightarrow> Inl e
            | Inr None \<Rightarrow> Inl (HTTPException 401 ''Invalid or expired token'')
            | Inr (Some d) \<Rightarrow> Inr d))"
proof (cases "verify_token L h now token ''access''")
  case (Inl e)
  then show ?thesis by (simp add: get_current_user_def)
next
  case (Inr payload)
  show ?thesis
  proof (cases payload)
    case None
    with Inr show ?thesis by (simp add: get_current_user_def)
  next
    case (Some d)
    with Inr have "d \<noteq> []" by (auto dest: verify_token_Some_nonempty)
    with Inr Some show ?thesis by (simp add: get_current_user_def)
  qed
qed

theorem get_current_user_checks_store_first_witness:
  "get_current_user sym_jose default_handler
     (add_token (TokenBlacklist_init 0) 10 (Garbage ''not a token'')) 20 (Garbage ''not a token'')
     = Inl (HTTPException 401 ''Token has been revoked'')
   \<and> get_current_user sym_jose default_handler (TokenBlacklist_init 0) 20 (Garbage ''not a token'')
     = Inl (HTTPException 401 ''Invalid or expired token'')"
  by (simp add: get_current_user_checks_store_first add_token_def auto_cleanup_def
        is_blacklisted_def TokenBlacklist_init_def verify_token_def decode_token_def
        sym_jose_def)

text \<open>
  C4. The RRHH guard accepts claims exactly when their \<open>role\<close> field is the string RRHH,
  and then returns them unchanged; it answers 403 otherwise. Claims whose \<open>roles\<close> list
  contains RRHH while \<open>role\<close> is something else are rejected.
\<close>

theorem rrhh_gate_primary_role_only:
  "((\<exists>c. get_current_rrhh_user current_user = Inr c) = (get current_user ''role'' = JStr ''RRHH''))
   \<and> (get current_user ''role'' = JStr ''RRHH''
        \<longrightarrow> get_current_rrhh_user current_user = Inr current_user)
   \<and> (get current_user ''role'' \<noteq> JStr ''RRHH''
        \<longrightarrow> get_current_rrhh_user current_user
            = Inl (HTTPException 403 ''Only users with RRHH role can perform this action''))
   \<and> (get current_user ''roles'' = JList rs \<and> JStr ''RRHH'' \<in> set rs
        \<and> get current_user ''role'' \<noteq> JStr ''RRHH''
        \<longrightarrow> get_current_rrhh_user current_user
            = Inl (HTTPException 403 ''Only users with RRHH role can perform this action''))"
  by (simp add: get_current_rrhh_user_def)

theorem rrhh_gate_primary_role_only_witness:
  "get [(''role'', JStr ''MEDICO''), (''roles'', JList [JStr ''MEDICO'', JStr ''RRHH''])] ''roles''
     = JList [JStr ''MEDICO'', JStr ''RRHH'']
   \<and> JStr ''RRHH'' \<in> set [JStr ''MEDICO'', JStr ''RRHH'']
   \<and> get [(''role'', JStr ''MEDICO''), (''roles'', JList [JStr ''MEDICO'', JStr ''RRHH''])] ''role''
     \<noteq> JStr ''RRHH''
   \<and> get_current_rrhh_user
       [(''role'', JStr ''MEDICO''), (''roles'', JList [JStr ''MEDICO'', JStr ''RRHH''])]
     = Inl (HTTPException 403 ''Only users with RRHH role can perform this action'')
   \<and> resolve_roles False [medico, rrhh] = (''MEDICO'', [''MEDICO'', ''RRHH''])"
proof -
  let ?cu = "[(''role'', JStr ''MEDICO''), (''roles'', JList [JStr ''MEDICO'', JStr ''RRHH''])]"
  have a: "get ?cu ''roles'' = JList [JStr ''MEDICO'', JStr ''RRHH'']"
    by (simp add: get_def get_default_def)
  have b: "JStr ''RRHH'' \<in> set [JStr ''MEDICO'', JStr ''RRHH'']"
    by simp
  have c: "get ?cu ''role'' \<noteq> JStr ''RRHH''"
    by (simp add: get_def get_default_def)
  have d: "resolve_roles False [medico, rrhh] = (''MEDICO'', [''MEDICO'', ''RRHH''])"
    by (simp add: resolve_roles_def medico_def rrhh_def)
  from rrhh_gate_primary_role_only [of ?cu "[JStr ''MEDICO'', JStr ''RRHH'']"] a b c
  have "get_current_rrhh_user ?cu
          = Inl (HTTPException 403 ''Only users with RRHH role can perform this action'')"
    by blast
  with a b c d show ?thesis by blast
qed


text \<open>The superuser guard tests the truth value of the \<open>is_superuser\<close> field.\<close>

lemma get_current_superuser_iff:
  "(\<exists>c. get_current_superuser current_user = Inr c)
     = truthy (get_default current_user ''is_superuser'' (JBool False))"
  by (simp add: get_current_superuser_def)

section \<open>The token codec\<close>


lemma sym_jose_roundtrip: "jose_roundtrip sym_jose key alg"
  by (simp add: jose_roundtrip_def sym_jose_def sym_encode_def)

lemma signable_access_payload:
  "signable (access_payload h now uid uname mail is_su role roles)"
  by (simp add: signable_def access_payload_def private_claims_def is_JStr_def is_JInt_def)

lemma signable_refresh_payload: "signable (refresh_payload h now uid)"
  by (simp add: signable_def refresh_payload_def private_claims_def is_JStr_def is_JInt_def)

lemma expired_access_payload:
  "expired (access_payload h now uid uname mail is_su role roles) now'
     = (now + 60 * access_token_expire_minutes h < now')"
  by (simp add: expired_def access_payload_def)

lemma expired_refresh_payload:
  "expired (refresh_payload h now uid) now' = (now + 86400 * refresh_token_expire_days h < now')"
  by (simp add: expired_def refresh_payload_def)

lemma decode_token_issued:
  assumes rt: "jose_roundtrip L (secret_key h) (algorithm h)" and sg: "signable p"
  shows "\<exists>tok. jwt_encode L p (secret_key h) (algorithm h) = Inr tok
           \<and> (\<forall>now. decode_token L h now tok = (if expired p now then Inr None else Inr (Some p)))"
proof -
  from rt sg obtain tok where
    enc: "jwt_encode L p (secret_key h) (algorithm h) = Inr tok" and
    dec: "\<And>now. if expired p now
            then (\<exists>m. jwt_decode L tok (secret_key h) [algorithm h] now
                        = Inl (Exn ExpiredSignatureError m))
            else jwt_decode L tok (secret_key h) [algorithm h] now = Inr p"
    unfolding jose_roundtrip_def by blast
  have "decode_token L h now tok = (if expired p now then Inr None else Inr (Some p))" for now
    using dec [of now] by (auto simp: decode_token_def)
  with enc show ?thesis by blast
qed


lemma nested_jose_roundtrip: "jose_roundtrip nested_jose key alg"
  by (simp add: jose_roundtrip_def nested_jose_def sym_encode_def)





text \<open>
  C3. With a library that round-trips under the handler's secret and algorithm, a positive
  access lifetime and a non-empty role list, the access token issued from a user id, a
  username, an email, a superuser flag, a primary role and the role list decodes, at the
  time of issue and at any time up to its expiry, to a payload with exactly these values;
  the expiry lies after the time of issue.
\<close>

theorem access_token_roundtrip:
  assumes rt: "jose_roundtrip L (secret_key h) (algorithm h)"
      and life: "0 < access_token_expire_minutes h"
      and roles: "roles \<noteq> []"
  shows "\<exists>tok. create_access_token L h now uid uname mail is_su role (Some roles) = Inr tok
     \<and> (\<forall>t. t \<le> now + 60 * access_token_expire_minutes h
          \<longrightarrow> (\<exists>d. decode_token L h t tok = Inr (Some d)
                 \<and> get d ''sub'' = JStr uid
                 \<and> get d ''username'' = JStr uname
                 \<and> get d ''email'' = JStr mail
                 \<and> get d ''is_superuser'' = JBool is_su
                 \<and> get d ''role'' = JStr role
                 \<and> get d ''roles'' = JList (map JStr roles)))
     \<and> now < now + 60 * access_token_expire_minutes h"
proof -
  let ?p = "access_payload h now uid uname mail is_su role (Some roles)"
  from decode_token_issued [OF rt signable_access_payload [of h now uid uname mail is_su role "Some roles"]]
  obtain tok where
    enc: "create_access_token L h now uid uname mail is_su role (Some roles) = Inr tok" and
    dec: "\<And>t. decode_token L h t tok = (if expired ?p t then Inr None else Inr (Some ?p))"
    unfolding create_access_token_def by blast
  have fields: "get ?p ''sub'' = JStr uid \<and> get ?p ''username'' = JStr uname
      \<and> get ?p ''email'' = JStr mail \<and> get ?p ''is_superuser'' = JBool is_su
      \<and> get ?p ''role'' = JStr role \<and> get ?p ''roles'' = JList (map JStr roles)"
    using roles by (simp add: access_payload_def get_def get_default_def roles_or_def)
  have "decode_token L h t tok = Inr (Some ?p)"
    if "t \<le> now + 60 * access_token_expire_minutes h" for t
    using that by (simp add: dec expired_access_payload)
  with enc fields life show ?thesis by auto
qed

theorem access_token_roundtrip_witness:
  "jose_roundtrip sym_jose (secret_key default_handler) (algorithm default_handler)
   \<and> 0 < access_token_expire_minutes default_handler
   \<and> [''MEDICO'', ''RRHH''] \<noteq> []
   \<and> (\<exists>tok. create_access_token sym_jose default_handler 1000 (id_user jdoe) (username jdoe)
               (email jdoe) False ''MEDICO'' (Some [''MEDICO'', ''RRHH'']) = Inr tok
          \<and> (\<exists>d. decode_token sym_jose default_handler 1000 tok = Inr (Some d)
                 \<and> get d ''sub'' = JStr (id_user jdoe)
                 \<and> get d ''username'' = JStr (username jdoe)
                 \<and> get d ''email'' = JStr (email jdoe)
                 \<and> get d ''is_superuser'' = JBool False
                 \<and> get d ''role'' = JStr ''MEDICO''
                 \<and> get d ''roles'' = JList (map JStr [''MEDICO'', ''RRHH''])))"
proof -
  have rt: "jose_roundtrip sym_jose (secret_key default_handler) (algorithm default_handler)"
    by (rule sym_jose_roundtrip)
  have life: "0 < access_token_expire_minutes default_handler"
    by (simp add: default_handler_def)
  have roles: "[''MEDICO'', ''RRHH''] \<noteq> []"
    by simp
  have fresh: "(1000::int) \<le> 1000 + 60 * access_token_expire_minutes default_handler"
    by (simp add: default_handler_def)
  from access_token_roundtrip [OF rt life roles, of 1000 "id_user jdoe" "username jdoe"
      "email jdoe" False "''MEDICO''"] fresh
  have "\<exists>tok. create_access_token sym_jose default_handler 1000 (id_user jdoe) (username jdoe)
               (email jdoe) False ''MEDICO'' (Some [''MEDICO'', ''RRHH'']) = Inr tok
          \<and> (\<exists>d. decode_token sym_jose default_handler 1000 tok = Inr (Some d)
                 \<and> get d ''sub'' = JStr (id_user jdoe)
                 \<and> get d ''username'' = JStr (username jdoe)
                 \<and> get d ''email'' = JStr (email jdoe)
                 \<and> get d ''is_superuser'' = JBool False
                 \<and> get d ''role'' = JStr ''MEDICO''
                 \<and> get d ''roles'' = JList (map JStr [''MEDICO'', ''RRHH'']))"
    by blast
  with rt life roles show ?thesis by blast
qed


text \<open>
  Without a role list, or with an empty one, the token carries the primary role as its only
  role: this is the \<^verbatim>\<open>roles or [role]\<close> of \<open>create_access_token\<close>.
\<close>

lemma access_token_default_roles:
  assumes rt: "jose_roundtrip L (secret_key h) (algorithm h)"
      and roles: "roles = None \<or> roles = Some []"
  shows "\<exists>tok. create_access_token L h now uid uname mail is_su role roles = Inr tok
     \<and> (\<forall>t. t \<le> now + 60 * access_token_expire_minutes h
          \<longrightarrow> (\<exists>d. decode_token L h t tok = Inr (Some d)
                 \<and> get d ''role'' = JStr role \<and> get d ''roles'' = JList [JStr role]))"
proof -
  let ?p = "access_payload h now uid uname mail is_su role roles"
  from decode_token_issued [OF rt signable_access_payload [of h now uid uname mail is_su role roles]]
  obtain tok where
    enc: "create_access_token L h now uid uname mail is_su role roles = Inr tok" and
    dec: "\<And>t. decode_token L h t tok = (if expired ?p t then Inr None else Inr (Some ?p))"
    unfolding create_access_token_def by blast
  have fields: "get ?p ''role'' = JStr role \<and> get ?p ''roles'' = JList [JStr role]"
    using roles by (auto simp: access_payload_def get_def get_default_def roles_or_def)
  have "decode_token L h t tok = Inr (Some ?p)"
    if "t \<le> now + 60 * access_token_expire_minutes h" for t
    using that by (simp add: dec expired_access_payload)
  with enc fields show ?thesis by auto
qed

section \<open>Login\<close>





text \<open>
  At the route, an unknown identifier and a wrong password give the same answer, status
  401 with the same detail; an inactive account gives status 401 as well.
\<close>

lemma login_route_401:
  "login (Inl (Exn ValueError msg) :: exn + 'a) = Inl (HTTPException 401 msg)"
  by (simp add: login_def)

section \<open>Refresh and the deny-list\<close>

text \<open>
  C9. The refresh route never consults the deny-list: for every refresh token and every
  two states of the process-wide deny-list its answer is the same, and it leaves the state
  as it found it. This holds in particular for a state in which that very token is on the
  deny-list, so a refresh token captured before a logout is accepted after it, as long as
  the codec accepts it.
\<close>

theorem refresh_ignores_revocation:
  "fst (route_refresh L h U R w now token) = fst (route_refresh L h U R w' now token)
   \<and> snd (route_refresh L h U R w now token) = w
   \<and> fst (route_refresh L h U R
            (w\<lparr>token_blacklist_instance := Some (add_token bl t0 token)\<rparr>) now token)
       = refresh_token L h U R now token"
  by (simp add: route_refresh_def)

lemma refresh_after_logout:
  "fst (route_refresh L h U R (snd (logout L h w t0 access)) now token)
     = fst (route_refresh L h U R w now token)"
  by (simp add: route_refresh_def)

theorem refresh_ignores_revocation_witness:
  "fst (route_current_user sym_jose default_handler logged_out 1002 jdoe_access)
     = Inl (HTTPException 401 ''Token has been revoked'')
   \<and> fst (route_refresh sym_jose default_handler example_user_repository
            example_role_repository logged_out 1002 jdoe_refresh)
     = fst (route_refresh sym_jose default_handler example_user_repository
              example_role_repository \<lparr>token_blacklist_instance = None\<rparr> 1002 jdoe_refresh)
   \<and> (\<exists>resp. fst (route_refresh sym_jose default_handler example_user_repository
                    example_role_repository logged_out 1002 jdoe_refresh) = Inr resp)"
proof -
  have revoked: "fst (route_current_user sym_jose default_handler logged_out 1002 jdoe_access)
     = Inl (HTTPException 401 ''Token has been revoked'')"
    by (simp add: route_current_user_def get_token_blacklist_def logged_out_def
          get_current_user_def is_blacklisted_add_token)
  have same: "fst (route_refresh sym_jose default_handler example_user_repository
            example_role_repository logged_out 1002 jdoe_refresh)
     = fst (route_refresh sym_jose default_handler example_user_repository
              example_role_repository \<lparr>token_blacklist_instance = None\<rparr> 1002 jdoe_refresh)"
    using refresh_ignores_revocation
            [of sym_jose default_handler example_user_repository example_role_repository
               logged_out 1002 jdoe_refresh "\<lparr>token_blacklist_instance = None\<rparr>"]
    by blast
  have "\<exists>resp. fst (route_refresh sym_jose default_handler example_user_repository
              example_role_repository \<lparr>token_blacklist_instance = None\<rparr> 1002 jdoe_refresh)
          = Inr resp"
    by (simp add: route_refresh_def refresh_token_def refresh_token_body_def verify_token_def
          decode_token_def sym_jose_def sym_encode_def jdoe_refresh_def refresh_payload_def
          expired_def get_def get_default_def default_handler_def example_user_repository_def
          example_role_repository_def example_users_def jdoe_def former_def
          create_access_token_def create_refresh_token_def Let_def)
  with revoked same show ?thesis by simp
qed


section \<open>Token validation\<close>

lemma valid_invalid_response: "\<not> valid (invalid_response msg)"
  by (simp add: invalid_response_def)

lemma valid_validation_failed: "\<not> valid (validation_failed e)"
  by (simp add: validation_failed_def invalid_response_def)

lemma UUID_truthy: "UUID v = Inr u \<Longrightarrow> truthy v"
  by (cases v) (auto simp: UUID_def replace_del.simps strip_chars_def Let_def split: if_splits)

text \<open>
  The use case converts \<open>sub\<close> with \<open>UUID\<close> inside its \<^verbatim>\<open>try\<close> block, so a payload that decodes
  and has a non-empty \<open>sub\<close> is still reported invalid when \<open>sub\<close> is not the text of a
  UUID: the refresh token that the handler issues for the user id abc decodes, its \<open>sub\<close>
  is abc, and validation answers \<open>valid = False\<close>.
\<close>

theorem validate_non_uuid_sub_counterexample:
  "create_refresh_token sym_jose default_handler 1000 ''abc''
     = Inr (Signed (refresh_payload default_handler 1000 ''abc'')
              (secret_key default_handler) (algorithm default_handler))
   \<and> decode_token sym_jose default_handler 1000
        (Signed (refresh_payload default_handler 1000 ''abc'')
           (secret_key default_handler) (algorithm default_handler))
     = Inr (Some (refresh_payload default_handler 1000 ''abc''))
   \<and> get (refresh_payload default_handler 1000 ''abc'') ''sub'' = JStr ''abc''
   \<and> ValidateTokenUseCase_execute strict_pydantic sym_jose default_handler 1000
        (Signed (refresh_payload default_handler 1000 ''abc'')
           (secret_key default_handler) (algorithm default_handler))
     = \<lparr>valid = False, user_id = None, username_val = None, email_val = None,
        is_superuser_val = False,
        message = Some ''Token validation failed: badly formed hexadecimal UUID string''\<rparr>"
  by (simp add: create_refresh_token_def sym_jose_def sym_encode_def decode_token_def
        refresh_payload_def expired_def default_handler_def get_def get_default_def
        ValidateTokenUseCase_execute_def UUID_def strip_chars_def validation_failed_def
        invalid_response_def Let_def)

text \<open>
  C10. Validation does not check the token kind. With a library that
  round-trips, the refresh token issued for a user id that \<open>UUID\<close> accepts is reported, at
  any time up to its expiry, as valid with that UUID, no username, no email and the
  superuser flag false. A payload that decodes, and whose username, email and superuser
  fields (absent or present) the response model accepts, is reported valid exactly when
  \<open>UUID\<close> accepts its \<open>sub\<close>; so it is reported invalid exactly when \<open>sub\<close> is missing,
  empty or not the text of a UUID.
\<close>

theorem validate_ignores_kind:
  "(jose_roundtrip L (secret_key h) (algorithm h) \<and> UUID (JStr uid) = Inr u
     \<longrightarrow> (\<exists>tok. create_refresh_token L h now uid = Inr tok
            \<and> (\<forall>t. t \<le> now + 86400 * refresh_token_expire_days h
                 \<longrightarrow> ValidateTokenUseCase_execute P L h t tok
                       = \<lparr>valid = True, user_id = Some u, username_val = None, email_val = None,
                          is_superuser_val = False, message = Some ''Token is valid''\<rparr>)))
   \<and> (decode_token L h t' token = Inr (Some d)
       \<and> (\<exists>x. optional_str_field P (get d ''username'') = Inr x)
       \<and> (\<exists>x. optional_str_field P (get d ''email'') = Inr x)
       \<and> (\<exists>b. bool_field P (get_default d ''is_superuser'' (JBool False)) = Inr b)
     \<longrightarrow> valid (ValidateTokenUseCase_execute P L h t' token)
           = (\<exists>v. UUID (get d ''sub'') = Inr v))"
proof -
  have one: "\<exists>tok. create_refresh_token L h now uid = Inr tok
            \<and> (\<forall>t. t \<le> now + 86400 * refresh_token_expire_days h
                 \<longrightarrow> ValidateTokenUseCase_execute P L h t tok
                       = \<lparr>valid = True, user_id = Some u, username_val = None, email_val = None,
                          is_superuser_val = False, message = Some ''Token is valid''\<rparr>)"
    if rt: "jose_roundtrip L (secret_key h) (algorithm h)" and uu: "UUID (JStr uid) = Inr u"
  proof -
    let ?p = "refresh_payload h now uid"
    from decode_token_issued [OF rt signable_refresh_payload [of h now uid]]
    obtain tok where
      enc: "create_refresh_token L h now uid = Inr tok" and
      dec: "\<And>t. decode_token L h t tok = (if expired ?p t then Inr None else Inr (Some ?p))"
      unfolding create_refresh_token_def by blast
    have g: "get ?p ''sub'' = JStr uid" "get ?p ''username'' = JNull" "get ?p ''email'' = JNull"
      "get_default ?p ''is_superuser'' (JBool False) = JBool False" "?p \<noteq> []"
      by (simp_all add: refresh_payload_def get_def get_default_def)
    from uu have tr: "truthy (JStr uid)" by (rule UUID_truthy)
    have "ValidateTokenUseCase_execute P L h t tok
            = \<lparr>valid = True, user_id = Some u, username_val = None, email_val = None,
               is_superuser_val = False, message = Some ''Token is valid''\<rparr>"
      if "t \<le> now + 86400 * refresh_token_expire_days h" for t
    proof -
      from that have "decode_token L h t tok = Inr (Some ?p)"
        by (simp add: dec expired_refresh_payload)
      then show ?thesis
        using g uu tr by (simp add: ValidateTokenUseCase_execute_def Let_def)
    qed
    with enc show ?thesis by blast
  qed
  have two: "valid (ValidateTokenUseCase_execute P L h t' token) = (\<exists>v. UUID (get d ''sub'') = Inr v)"
    if dec: "decode_token L h t' token = Inr (Some d)"
      and un: "optional_str_field P (get d ''username'') = Inr x1"
      and em: "optional_str_field P (get d ''email'') = Inr x2"
      and su: "bool_field P (get_default d ''is_superuser'' (JBool False)) = Inr b"
    for x1 x2 b
  proof (cases "UUID (get d ''sub'')")
    case (Inl e)
    have "\<not> valid (ValidateTokenUseCase_execute P L h t' token)"
      using dec Inl
      by (simp add: ValidateTokenUseCase_execute_def Let_def valid_invalid_response
            valid_validation_failed)
    with Inl show ?thesis by simp
  next
    case (Inr v)
    then have tr: "truthy (get d ''sub'')" by (rule UUID_truthy)
    then have ne: "d \<noteq> []" by (auto simp: get_def get_default_def)
    have "valid (ValidateTokenUseCase_execute P L h t' token)"
      using dec Inr tr ne un em su
      by (simp add: ValidateTokenUseCase_execute_def Let_def)
    with Inr show ?thesis by simp
  qed
  from one two show ?thesis by blast
qed

theorem validate_ignores_kind_witness:
  "jose_roundtrip sym_jose (secret_key default_handler) (algorithm default_handler)
   \<and> UUID (JStr (id_user jdoe)) = Inr 24249434048109030647017182301789831168
   \<and> ValidateTokenUseCase_execute strict_pydantic sym_jose default_handler 1002 jdoe_refresh
       = \<lparr>valid = True, user_id = Some 24249434048109030647017182301789831168,
          username_val = None, email_val = None, is_superuser_val = False,
          message = Some ''Token is valid''\<rparr>
   \<and> decode_token sym_jose default_handler 1002 jdoe_access
       = Inr (Some (access_payload default_handler 1000 (id_user jdoe) (username jdoe)
                      (email jdoe) False ''MEDICO'' (Some [''MEDICO'', ''RRHH''])))
   \<and> valid (ValidateTokenUseCase_execute strict_pydantic sym_jose default_handler 1002
              jdoe_access)"
proof -
  let ?k = "secret_key default_handler" and ?a = "algorithm default_handler"
  let ?d = "access_payload default_handler 1000 (id_user jdoe) (username jdoe)
              (email jdoe) False ''MEDICO'' (Some [''MEDICO'', ''RRHH''])"
  have rt: "jose_roundtrip sym_jose ?k ?a"
    by (rule sym_jose_roundtrip)
  have uu: "UUID (JStr (id_user jdoe)) = Inr 24249434048109030647017182301789831168"
    by code_simp
  have life: "(1002::int) \<le> 1000 + 86400 * refresh_token_expire_days default_handler"
    by (simp add: default_handler_def)
  have enc: "create_refresh_token sym_jose default_handler 1000 (id_user jdoe) = Inr jdoe_refresh"
    by (simp add: create_refresh_token_def sym_jose_def sym_encode_def jdoe_refresh_def)
  note inst = validate_ignores_kind
      [of sym_jose default_handler "id_user jdoe" 24249434048109030647017182301789831168
         1000 strict_pydantic 1002 jdoe_access ?d]
  from inst rt uu obtain tok where
    tok: "create_refresh_token sym_jose default_handler 1000 (id_user jdoe) = Inr tok" and
    val: "\<forall>t. t \<le> 1000 + 86400 * refresh_token_expire_days default_handler
           \<longrightarrow> ValidateTokenUseCase_execute strict_pydantic sym_jose default_handler t tok
                 = \<lparr>valid = True, user_id = Some 24249434048109030647017182301789831168,
                    username_val = None, email_val = None, is_superuser_val = False,
                    message = Some ''Token is valid''\<rparr>"
    by blast
  from tok enc have "tok = jdoe_refresh" by simp
  with val life have refresh_valid:
    "ValidateTokenUseCase_execute strict_pydantic sym_jose default_handler 1002 jdoe_refresh
       = \<lparr>valid = True, user_id = Some 24249434048109030647017182301789831168,
          username_val = None, email_val = None, is_superuser_val = False,
          message = Some ''Token is valid''\<rparr>"
    by blast
  have dec: "decode_token sym_jose default_handler 1002 jdoe_access = Inr (Some ?d)"
    by (simp add: decode_token_def sym_jose_def jdoe_access_def expired_access_payload
          default_handler_def)
  have sub: "get ?d ''sub'' = JStr (id_user jdoe)"
    by (simp add: access_payload_def get_def get_default_def)
  have fields: "(\<exists>x. optional_str_field strict_pydantic (get ?d ''username'') = Inr x)
      \<and> (\<exists>x. optional_str_field strict_pydantic (get ?d ''email'') = Inr x)
      \<and> (\<exists>b. bool_field strict_pydantic (get_default ?d ''is_superuser'' (JBool False)) = Inr b)"
    by (auto simp: access_payload_def get_def get_default_def)
  from inst dec fields
  have "valid (ValidateTokenUseCase_execute strict_pydantic sym_jose default_handler 1002
                 jdoe_access)
          = (\<exists>v. UUID (get ?d ''sub'') = Inr v)"
    by blast
  with sub uu
  have access_valid:
    "valid (ValidateTokenUseCase_execute strict_pydantic sym_jose default_handler 1002
              jdoe_access)"
    by simp
  from rt uu refresh_valid dec access_valid show ?thesis by blast
qed

end
